theory Spec2Isabelle
  imports Complex_Main "HOL-Library.AList" "HOL-Library.Sublist"
begin

section \<open>Python values, strings and exceptions\<close>

text \<open>
  The exceptions the modelled methods can raise. A method that can raise returns
  \<open>error + 'a\<close>, with \<open>Inl\<close> for the exception.
\<close>

datatype error = IndexError | ValueError | OverflowError | TypeError

text \<open>\<open>str(n)\<close> for a Python int, as used by the f-strings of the validator.\<close>

definition digit_char :: "nat \<Rightarrow> char" where
  "digit_char d = ''0123456789'' ! d"

function str_nat :: "nat \<Rightarrow> string" where
  "str_nat n = (if n < 10 then [digit_char n] else str_nat (n div 10) @ [digit_char (n mod 10)])"
  by pat_completeness auto
termination
  by (relation "measure id") auto

declare str_nat.simps [simp del]

definition str_int :: "int \<Rightarrow> string" where
  "str_int i = (if i < 0 then CHR ''-'' # str_nat (nat (- i)) else str_nat (nat i))"

text \<open>\<open>sep.join(xs)\<close>.\<close>

fun join :: "string \<Rightarrow> string list \<Rightarrow> string" where
  "join sep [] = []"
| "join sep [x] = x"
| "join sep (x # y # ys) = x @ sep @ join sep (y # ys)"

text \<open>\<open>sub in s\<close> for two Python strings: \<open>sub\<close> occurs in \<open>s\<close> as a contiguous block.\<close>

fun contains :: "string \<Rightarrow> string \<Rightarrow> bool" where
  "contains sub [] = (sub = [])"
| "contains sub (c # cs) = (prefix sub (c # cs) \<or> contains sub cs)"

text \<open>\<open>s.upper()\<close> on ASCII text: the letters a..z move to A..Z, every other byte stays.\<close>

definition upper_char :: "char \<Rightarrow> char" where
  "upper_char c = (let n = (of_char c :: nat) in if 97 \<le> n \<and> n \<le> 122 then char_of (n - 32) else c)"

definition upper :: "string \<Rightarrow> string" where
  "upper s = map upper_char s"

text \<open>\<open>s.endswith(c)\<close> for a one-character suffix.\<close>

definition endswith :: "string \<Rightarrow> char \<Rightarrow> bool" where
  "endswith s c = (s \<noteq> [] \<and> last s = c)"

section \<open>The topology summary and the request\<close>

text \<open>
  \<open>self.summary\<close> is the dict \<open>hardware_info.get("summary", {})\<close>. Each key the core reads is a
  field; \<open>None\<close> is an absent key, so \<open>summary.get(k, d)\<close> is the default \<open>d\<close> there.
\<close>

record summary =
  cpus_per_node :: "int option"
  numa_nodes_per_node :: "int option"
  hyperthreading_enabled :: "bool option"
  architectures :: "string list option"

text \<open>
  The requirements dict handed to \<open>validate\<close>, with the types of the tool signature that builds it.
  \<open>None\<close> is an absent key or the Python value \<open>None\<close>: \<open>requirements.get(k)\<close> is \<open>None\<close> for both.
\<close>

record requirements =
  workload_type :: "string option"
  isolated_cpu_count :: "int option"
  reserved_cpu_count :: "int option"
  enable_rt_kernel :: "bool option"
  enable_dpdk :: "bool option"
  hugepages_size :: "string option"
  hugepages_count :: "int option"
  power_mode :: "string option"
  per_pod_power_management :: "bool option"

text \<open>\<open>d.get(k, default)\<close> on an optional field.\<close>

definition get_or :: "'a option \<Rightarrow> 'a \<Rightarrow> 'a" where
  "get_or v d = (case v of None \<Rightarrow> d | Some x \<Rightarrow> x)"

text \<open>
  \<open>self.summary.get("architectures", ["unknown"])[0]\<close>: the default covers an absent key only;
  indexing an empty list raises \<open>IndexError\<close>.
\<close>

definition first_architecture :: "summary \<Rightarrow> error + string" where
  "first_architecture summ =
     (case get_or (architectures summ) [''unknown''] of
        [] \<Rightarrow> Inl IndexError
      | a # _ \<Rightarrow> Inr a)"

section \<open>Floating point\<close>

text \<open>
  The memory estimate of the huge-pages check is the only floating-point computation of the
  core. Its four operations are parameters of the model, so every theorem below holds for
  whatever values Python's floats give:
  \<^item> \<open>py_float s\<close> is \<open>float(s)\<close>, \<open>None\<close> where Python raises \<open>ValueError\<close>;
  \<^item> \<open>fdiv x n\<close> is \<open>x / n\<close> for a float \<open>x\<close> and a positive int \<open>n\<close>;
  \<^item> \<open>fmul x n\<close> is \<open>x * n\<close> for a float \<open>x\<close> and an int \<open>n\<close>, \<open>None\<close> where the int is too
    large to convert (\<open>OverflowError\<close>);
  \<^item> \<open>fmt2 x\<close> is the text of \<open>x\<close> under the format \<open>.2f\<close>.
\<close>

record 'f float_ops =
  py_float :: "string \<Rightarrow> 'f option"
  fdiv :: "'f \<Rightarrow> int \<Rightarrow> 'f"
  fmul :: "'f \<Rightarrow> int \<Rightarrow> 'f option"
  fmt2 :: "'f \<Rightarrow> string"

text \<open>
  \<open>_hugepage_to_gb\<close>. The result is \<open>Some x\<close> for a float \<open>x\<close> and \<open>None\<close> for the int \<open>0\<close> of the
  last branch.
\<close>

definition hugepage_to_gb :: "'f float_ops \<Rightarrow> string \<Rightarrow> error + 'f option" where
  "hugepage_to_gb fo sz =
     (let size_upper = upper sz in
      if endswith size_upper CHR ''G'' then
        (case py_float fo (butlast size_upper) of
           None \<Rightarrow> Inl ValueError
         | Some x \<Rightarrow> Inr (Some x))
      else if endswith size_upper CHR ''M'' then
        (case py_float fo (butlast size_upper) of
           None \<Rightarrow> Inl ValueError
         | Some x \<Rightarrow> Inr (Some (fdiv fo x 1024)))
      else if endswith size_upper CHR ''K'' then
        (case py_float fo (butlast size_upper) of
           None \<Rightarrow> Inl ValueError
         | Some x \<Rightarrow> Inr (Some (fdiv fo x (1024 * 1024))))
      else Inr None)"

text \<open>
  \<open>f"{size_gb * hugepage_count:.2f}"\<close>: the int \<open>0\<close> times the count is the int \<open>0\<close>, printed
  as \<open>0.00\<close>.
\<close>

definition total_gb_text :: "'f float_ops \<Rightarrow> 'f option \<Rightarrow> int \<Rightarrow> error + string" where
  "total_gb_text fo size_gb cnt =
     (case size_gb of
        None \<Rightarrow> Inr ''0.00''
      | Some x \<Rightarrow>
          (case fmul fo x cnt of
             None \<Rightarrow> Inl OverflowError
           | Some t \<Rightarrow> Inr (fmt2 fo t)))"

section \<open>The hardware validator\<close>

record cpu_check =
  cpu_is_valid :: bool
  cpu_errors :: "string list"
  cpu_warnings :: "string list"
  cpu_recommendations :: "string list"

record rt_check =
  rt_is_valid :: bool
  rt_warnings :: "string list"
  rt_recommendations :: "string list"

record hugepages_check =
  hp_is_valid :: bool
  hp_errors :: "string list"
  hp_recommendations :: "string list"

record power_check =
  pm_warnings :: "string list"
  pm_recommendations :: "string list"

record detailed_checks =
  cpu :: cpu_check
  rt_kernel :: rt_check
  hugepages :: hugepages_check
  power_mode_check :: power_check

record report =
  is_valid :: bool
  errors :: "string list"
  warnings :: "string list"
  recommendations :: "string list"
  checks :: detailed_checks
  overall_status :: string

subsection \<open>The CPU check\<close>

definition msg_reserved_required :: string where
  "msg_reserved_required = ''Reserved CPU count is required''"

definition msg_reserved_low :: string where
  "msg_reserved_low =
     ''Reserved CPU count is very low. Minimum 2 CPUs recommended for system workloads.''"

definition msg_reserve_more :: string where
  "msg_reserve_more = ''Consider reserving at least 2-4 CPUs for system processes''"

definition msg_isolated_derived :: "int \<Rightarrow> string" where
  "msg_isolated_derived isolated =
     ''Isolated CPU count not specified. Will use '' @ str_int isolated @ '' CPUs (total - reserved)''"

definition msg_total_exceeds :: "int \<Rightarrow> int \<Rightarrow> string" where
  "msg_total_exceeds total_required cpn =
     ''Total CPUs required ('' @ str_int total_required @ '') exceeds available CPUs per node (''
       @ str_int cpn @ '')''"

definition msg_numa_uneven :: "int \<Rightarrow> int \<Rightarrow> string" where
  "msg_numa_uneven reserved numa_nodes =
     ''Reserved CPUs ('' @ str_int reserved @ '') not evenly divisible by NUMA nodes (''
       @ str_int numa_nodes @ ''). '' @ ''Consider using --split-reserved-cpus-across-numa flag.''"

definition msg_numa_align :: "int \<Rightarrow> string" where
  "msg_numa_align numa_nodes =
     ''Your system has '' @ str_int numa_nodes
       @ '' NUMA nodes. Consider allocating CPUs aligned to NUMA boundaries ''
       @ ''for optimal performance.''"

definition msg_ht :: string where
  "msg_ht =
     ''Hyperthreading is enabled. For ultra-low latency workloads, ''
       @ ''consider disabling it with --disable-ht flag.''"

definition validate_cpu :: "summary \<Rightarrow> requirements \<Rightarrow> cpu_check" where
  "validate_cpu summ req =
     (let cpn = get_or (cpus_per_node summ) 0;
          numa_nodes = get_or (numa_nodes_per_node summ) 1;
          ht_enabled = get_or (hyperthreading_enabled summ) True
      in case reserved_cpu_count req of
           None \<Rightarrow>
             \<lparr>cpu_is_valid = False, cpu_errors = [msg_reserved_required],
              cpu_warnings = [], cpu_recommendations = []\<rparr>
         | Some reserved \<Rightarrow>
             (let w1 = (if reserved < 2 then [msg_reserved_low] else []);
                  r1 = (if reserved < 2 then [msg_reserve_more] else []);
                  isolated = (case isolated_cpu_count req of
                                None \<Rightarrow> cpn - reserved
                              | Some i \<Rightarrow> i);
                  r2 = (case isolated_cpu_count req of
                          None \<Rightarrow> r1 @ [msg_isolated_derived isolated]
                        | Some i \<Rightarrow> r1);
                  total_required = isolated + reserved;
                  fits = \<not> (total_required > cpn);
                  e1 = (if fits then [] else [msg_total_exceeds total_required cpn]);
                  w2 = (if numa_nodes > 1 \<and> reserved mod numa_nodes \<noteq> 0
                        then w1 @ [msg_numa_uneven reserved numa_nodes] else w1);
                  r3 = (if numa_nodes > 1 then r2 @ [msg_numa_align numa_nodes] else r2);
                  r4 = (if ht_enabled then r3 @ [msg_ht] else r3)
              in \<lparr>cpu_is_valid = fits, cpu_errors = e1,
                  cpu_warnings = w2, cpu_recommendations = r4\<rparr>))"

subsection \<open>The real-time kernel check\<close>

definition msg_rt_enabled :: string where
  "msg_rt_enabled =
     ''Real-time kernel will be enabled. This provides deterministic latency ''
       @ ''but requires node reboot during profile application.''"

definition msg_rt_arm :: string where
  "msg_rt_arm =
     ''Real-time kernel on ARM architecture may have limited support. ''
       @ ''Verify RT kernel availability for your specific hardware.''"

definition msg_rt_not_required :: "string \<Rightarrow> string" where
  "msg_rt_not_required wt =
     ''RT kernel typically not required for '' @ wt @ '' workloads. ''
       @ ''Consider disabling RT kernel to reduce complexity.''"

definition msg_rt_recommended :: "string \<Rightarrow> string" where
  "msg_rt_recommended wt =
     ''RT kernel is highly recommended for '' @ wt @ '' workloads ''
       @ ''to achieve deterministic low latency.''"

definition validate_rt_kernel :: "summary \<Rightarrow> requirements \<Rightarrow> error + rt_check" where
  "validate_rt_kernel summ req =
     (let enable_rt = get_or (enable_rt_kernel req) False
      in case first_architecture summ of
           Inl e \<Rightarrow> Inl e
         | Inr architecture \<Rightarrow>
             (let wt = get_or (workload_type req) [] in
              if enable_rt then
                (let w1 = (if contains ''aarch64'' architecture \<or> contains ''arm64'' architecture
                           then [msg_rt_arm] else []);
                     w2 = (if wt \<in> set [''database'', ''ai-inference'']
                           then w1 @ [msg_rt_not_required wt] else w1)
                 in Inr \<lparr>rt_is_valid = True, rt_warnings = w2,
                         rt_recommendations = [msg_rt_enabled]\<rparr>)
              else
                Inr \<lparr>rt_is_valid = True, rt_warnings = [],
                     rt_recommendations = (if wt \<in> set [''5g-ran'', ''telco-vnf'']
                                           then [msg_rt_recommended wt] else [])\<rparr>))"

subsection \<open>The huge-pages check\<close>

definition valid_sizes_x86 :: "string list" where
  "valid_sizes_x86 = [''2M'', ''1G'']"

definition valid_sizes_arm :: "string list" where
  "valid_sizes_arm = [''64K'', ''2M'', ''32M'', ''512M'', ''1G'']"

definition msg_invalid_size_x86 :: "string \<Rightarrow> string" where
  "msg_invalid_size_x86 sz =
     ''Invalid hugepage size '' @ [CHR 0x27] @ sz @ [CHR 0x27] @ '' for x86_64. ''
       @ ''Valid sizes: '' @ join '', '' valid_sizes_x86"

definition msg_invalid_size_arm :: "string \<Rightarrow> string" where
  "msg_invalid_size_arm sz =
     ''Invalid hugepage size '' @ [CHR 0x27] @ sz @ [CHR 0x27] @ '' for aarch64. ''
       @ ''Valid sizes: '' @ join '', '' valid_sizes_arm"

definition msg_hugepages_reserve :: "string \<Rightarrow> string" where
  "msg_hugepages_reserve total_gb =
     ''Hugepages will reserve '' @ total_gb @ '' GB of memory. ''
       @ ''Ensure sufficient memory is available.''"

definition msg_count_missing :: string where
  "msg_count_missing =
     ''Hugepage count not specified. Define the number of hugepages needed for your workload.''"

definition msg_dpdk_hugepages :: string where
  "msg_dpdk_hugepages =
     ''DPDK workloads typically require hugepages (1G recommended). ''
       @ ''Consider configuring hugepages for optimal performance.''"

text \<open>Truth value of an optional string and of an optional int, as \<open>if x:\<close> tests them.\<close>

definition truthy_str :: "string option \<Rightarrow> bool" where
  "truthy_str v = (case v of None \<Rightarrow> False | Some s \<Rightarrow> s \<noteq> [])"

definition truthy_int :: "int option \<Rightarrow> bool" where
  "truthy_int v = (case v of None \<Rightarrow> False | Some n \<Rightarrow> n \<noteq> 0)"

text \<open>The size whitelist of the first architecture: the errors it appends.\<close>

definition size_errors :: "string \<Rightarrow> string \<Rightarrow> string list" where
  "size_errors architecture sz =
     (if contains ''x86'' architecture \<or> contains ''amd64'' architecture then
        (if sz \<notin> set valid_sizes_x86 then [msg_invalid_size_x86 sz] else [])
      else if contains ''aarch64'' architecture \<or> contains ''arm64'' architecture then
        (if sz \<notin> set valid_sizes_arm then [msg_invalid_size_arm sz] else [])
      else [])"

definition validate_hugepages ::
  "'f float_ops \<Rightarrow> summary \<Rightarrow> requirements \<Rightarrow> error + hugepages_check" where
  "validate_hugepages fo summ req =
     (case first_architecture summ of
        Inl e \<Rightarrow> Inl e
      | Inr architecture \<Rightarrow>
          (let dpdk_recs = (if get_or (enable_dpdk req) False \<and> \<not> truthy_str (hugepages_size req)
                            then [msg_dpdk_hugepages] else [])
           in if truthy_str (hugepages_size req) then
                (let sz = the (hugepages_size req);
                     errs = size_errors architecture sz
                 in if truthy_int (hugepages_count req) then
                      (case hugepage_to_gb fo sz of
                         Inl e \<Rightarrow> Inl e
                       | Inr size_gb \<Rightarrow>
                           (case total_gb_text fo size_gb (the (hugepages_count req)) of
                              Inl e \<Rightarrow> Inl e
                            | Inr txt \<Rightarrow>
                                Inr \<lparr>hp_is_valid = (errs = []), hp_errors = errs,
                                     hp_recommendations = [msg_hugepages_reserve txt] @ dpdk_recs\<rparr>))
                    else
                      Inr \<lparr>hp_is_valid = (errs = []), hp_errors = errs,
                           hp_recommendations = [msg_count_missing] @ dpdk_recs\<rparr>)
              else
                Inr \<lparr>hp_is_valid = True, hp_errors = [], hp_recommendations = dpdk_recs\<rparr>))"

subsection \<open>The power-mode check\<close>

definition msg_power_draw :: "string \<Rightarrow> string" where
  "msg_power_draw pmode =
     ''Power mode '' @ [CHR 0x27] @ pmode @ [CHR 0x27]
       @ '' will increase power consumption significantly. ''
       @ ''Ensure adequate cooling and power capacity.''"

definition msg_per_pod_exclusive :: string where
  "msg_per_pod_exclusive =
     ''Per-pod power management and high power consumption mode are mutually exclusive. ''
       @ ''Per-pod power management will be disabled.''"

definition validate_power_mode :: "requirements \<Rightarrow> power_check" where
  "validate_power_mode req =
     (let pmode = get_or (power_mode req) ''default'';
          per_pod_pm = get_or (per_pod_power_management req) False;
          w1 = (if pmode \<in> set [''low-latency'', ''ultra-low-latency'']
                then [msg_power_draw pmode] else []);
          w2 = (if per_pod_pm \<and> pmode \<noteq> ''default'' then w1 @ [msg_per_pod_exclusive] else w1)
      in \<lparr>pm_warnings = w2, pm_recommendations = []\<rparr>)"

subsection \<open>The aggregate\<close>

text \<open>The two status lines start with the UTF-8 bytes of a check mark and of a ballot cross.\<close>

definition status_valid :: string where
  "status_valid = [CHR 0xE2, CHR 0x9C, CHR 0x93] @ '' Configuration is valid and feasible''"

definition status_invalid :: string where
  "status_invalid =
     [CHR 0xE2, CHR 0x9C, CHR 0x97] @ '' Configuration has issues that must be addressed''"

definition validate :: "'f float_ops \<Rightarrow> summary \<Rightarrow> requirements \<Rightarrow> error + report" where
  "validate fo summ req =
     (let cpu_validation = validate_cpu summ req in
      case validate_rt_kernel summ req of
        Inl e \<Rightarrow> Inl e
      | Inr rt_validation \<Rightarrow>
          (case validate_hugepages fo summ req of
             Inl e \<Rightarrow> Inl e
           | Inr hugepages_validation \<Rightarrow>
               (let power_validation = validate_power_mode req;
                    valid = cpu_is_valid cpu_validation
                in Inr \<lparr>is_valid = valid,
                        errors = (if \<not> cpu_is_valid cpu_validation
                                  then cpu_errors cpu_validation else []),
                        warnings = cpu_warnings cpu_validation @ rt_warnings rt_validation
                          @ (if \<not> hp_is_valid hugepages_validation
                             then hp_errors hugepages_validation else [])
                          @ pm_warnings power_validation,
                        recommendations = cpu_recommendations cpu_validation
                          @ rt_recommendations rt_validation
                          @ hp_recommendations hugepages_validation,
                        checks = \<lparr>cpu = cpu_validation, rt_kernel = rt_validation,
                                  hugepages = hugepages_validation,
                                  power_mode_check = power_validation\<rparr>,
                        overall_status = (if valid then status_valid else status_invalid)\<rparr>)))"

section \<open>The parameter synthesizer\<close>

subsection \<open>Parameter dicts\<close>

text \<open>
  The values of a parameter dict: \<open>None\<close>, a bool, an int or a str. A dict is an association
  list in insertion order; \<open>d[k] = v\<close> is \<open>AList.update\<close>, which keeps the place of a key that is
  already there and appends a new one, as Python does.
\<close>

datatype pyval = PNone | PBool bool | PInt int | PStr string

type_synonym pydict = "(string \<times> pyval) list"

text \<open>\<open>d.get(k)\<close> and \<open>d.get(k, default)\<close>.\<close>

definition dict_get :: "pydict \<Rightarrow> string \<Rightarrow> pyval" where
  "dict_get d k = (case map_of d k of None \<Rightarrow> PNone | Some v \<Rightarrow> v)"

definition dict_get_default :: "pydict \<Rightarrow> string \<Rightarrow> pyval \<Rightarrow> pyval" where
  "dict_get_default d k dflt = (case map_of d k of None \<Rightarrow> dflt | Some v \<Rightarrow> v)"

definition dict_set :: "pydict \<Rightarrow> string \<Rightarrow> pyval \<Rightarrow> pydict" where
  "dict_set d k v = AList.update k v d"

text \<open>The truth value of a Python value.\<close>

fun truthy :: "pyval \<Rightarrow> bool" where
  "truthy PNone = False"
| "truthy (PBool b) = b"
| "truthy (PInt i) = (i \<noteq> 0)"
| "truthy (PStr s) = (s \<noteq> [])"

text \<open>
  The number a value stands for where Python compares it with an int: an int, or a bool as
  0 or 1. \<open>None\<close> and a str make the comparison raise \<open>TypeError\<close>.
\<close>

fun as_number :: "pyval \<Rightarrow> int option" where
  "as_number (PInt i) = Some i"
| "as_number (PBool b) = Some (if b then 1 else 0)"
| "as_number PNone = None"
| "as_number (PStr s) = None"

subsection \<open>The reserved-CPU heuristic\<close>

text \<open>
  \<open>int(cpus_per_node * 0.1)\<close>: the product is a float and \<open>int\<close> truncates it towards zero.
  For every int of magnitude below \<open>10 ^ 15\<close> the double nearest to the product lies in the
  same unit interval as the exact tenth, so the result is the truncated tenth.
\<close>

definition int_tenth :: "int \<Rightarrow> int" where
  "int_tenth n = (if 0 \<le> n then n div 10 else - ((- n) div 10))"

definition calculate_reserved_cpus :: "summary \<Rightarrow> string \<Rightarrow> int" where
  "calculate_reserved_cpus summ wt =
     (let cpn = get_or (cpus_per_node summ) 0;
          numa_nodes = get_or (numa_nodes_per_node summ) 1
      in if cpn = 0 then 4
         else
           (let base_reserved = max 2 (numa_nodes * 2);
                reserved =
                  (if wt \<in> set [''5g-ran'', ''telco-vnf''] then base_reserved
                   else if wt = ''database'' then max 4 (int_tenth cpn)
                   else if wt = ''ai-inference'' then base_reserved
                   else max 4 (int_tenth cpn))
            in max 2 (min reserved (cpn div 4))))"

subsection \<open>Conflict resolution\<close>

text \<open>
  \<open>_adjust_parameters\<close> changes the dict it is given and returns it; the model is the function
  from the dict's contents before the call to its contents after it.
\<close>

definition adjust_parameters :: "summary \<Rightarrow> pydict \<Rightarrow> error + pydict" where
  "adjust_parameters summ params =
     (let p1 = (if truthy (dict_get params ''per_pod_power_management'')
                   \<and> dict_get params ''power_mode'' \<noteq> PStr ''default''
                then dict_set params ''power_mode'' (PStr ''default'') else params);
          p2 = (if truthy (dict_get p1 ''enable_dpdk'')
                   \<and> dict_get p1 ''topology_policy''
                       \<notin> set [PStr ''single-numa-node'', PStr ''restricted'']
                then dict_set p1 ''topology_policy'' (PStr ''single-numa-node'') else p1);
          numa_nodes = get_or (numa_nodes_per_node summ) 1
      in if numa_nodes > 1 \<and> \<not> truthy (dict_get p2 ''split_reserved_across_numa'') then
           (case as_number (dict_get_default p2 ''reserved_cpu_count'' (PInt 0)) of
              None \<Rightarrow> Inl TypeError
            | Some reserved \<Rightarrow>
                Inr (if reserved \<ge> numa_nodes * 2
                     then dict_set p2 ''split_reserved_across_numa'' (PBool True) else p2))
         else Inr p2)"

subsection \<open>Templates and the store of dicts\<close>

text \<open>
  Dicts are objects: two names can hold the same dict, and a write through one shows through
  the other. The store lists the configuration dicts; an address is a position in it. A
  template holds the address of its \<open>default_config\<close> (\<open>None\<close> when the key is absent). A template
  is a dict with keys, so \<open>if template:\<close> holds for every template and fails for \<open>None\<close> only.
\<close>

type_synonym store = "pydict list"

record hugepages_hint =
  hint_size :: string
  hint_note :: string

record template =
  name :: string
  description :: string
  default_config :: "nat option"
  recommended_hugepages :: hugepages_hint
  use_cases :: "string list"

text \<open>A new dict object: its address and the store that holds it.\<close>

definition alloc :: "store \<Rightarrow> pydict \<Rightarrow> nat \<times> store" where
  "alloc st d = (length st, st @ [d])"

definition get_base_defaults :: pydict where
  "get_base_defaults =
     [(''enable_rt_kernel'', PBool False),
      (''disable_ht'', PBool False),
      (''enable_dpdk'', PBool False),
      (''power_mode'', PStr ''default''),
      (''topology_policy'', PStr ''restricted''),
      (''split_reserved_across_numa'', PBool False),
      (''per_pod_power_management'', PBool False)]"

subsection \<open>The template catalog\<close>

text \<open>
  \<open>WorkloadTemplates.TEMPLATES\<close>: the seven \<open>default_config\<close> dicts are the objects of the catalog
  store, in the order of the table, and each template holds the address of its own.
\<close>

definition config_ran_5g :: pydict where
  "config_ran_5g =
     [(''enable_rt_kernel'', PBool True),
      (''disable_ht'', PBool True),
      (''enable_dpdk'', PBool True),
      (''power_mode'', PStr ''ultra-low-latency''),
      (''topology_policy'', PStr ''single-numa-node''),
      (''split_reserved_across_numa'', PBool True),
      (''per_pod_power_management'', PBool False)]"

definition config_telco_vnf :: pydict where
  "config_telco_vnf =
     [(''enable_rt_kernel'', PBool True),
      (''disable_ht'', PBool False),
      (''enable_dpdk'', PBool True),
      (''power_mode'', PStr ''low-latency''),
      (''topology_policy'', PStr ''single-numa-node''),
      (''split_reserved_across_numa'', PBool True),
      (''per_pod_power_management'', PBool False)]"

definition config_database :: pydict where
  "config_database =
     [(''enable_rt_kernel'', PBool False),
      (''disable_ht'', PBool False),
      (''enable_dpdk'', PBool False),
      (''power_mode'', PStr ''default''),
      (''topology_policy'', PStr ''restricted''),
      (''split_reserved_across_numa'', PBool True),
      (''per_pod_power_management'', PBool False)]"

definition config_ai_inference :: pydict where
  "config_ai_inference =
     [(''enable_rt_kernel'', PBool False),
      (''disable_ht'', PBool False),
      (''enable_dpdk'', PBool False),
      (''power_mode'', PStr ''low-latency''),
      (''topology_policy'', PStr ''single-numa-node''),
      (''split_reserved_across_numa'', PBool True),
      (''per_pod_power_management'', PBool False)]"

definition config_hpc :: pydict where
  "config_hpc =
     [(''enable_rt_kernel'', PBool False),
      (''disable_ht'', PBool False),
      (''enable_dpdk'', PBool False),
      (''power_mode'', PStr ''low-latency''),
      (''topology_policy'', PStr ''single-numa-node''),
      (''split_reserved_across_numa'', PBool True),
      (''per_pod_power_management'', PBool False)]"

definition config_low_latency_trading :: pydict where
  "config_low_latency_trading =
     [(''enable_rt_kernel'', PBool True),
      (''disable_ht'', PBool True),
      (''enable_dpdk'', PBool True),
      (''power_mode'', PStr ''ultra-low-latency''),
      (''topology_policy'', PStr ''single-numa-node''),
      (''split_reserved_across_numa'', PBool True),
      (''per_pod_power_management'', PBool False)]"

definition config_media_processing :: pydict where
  "config_media_processing =
     [(''enable_rt_kernel'', PBool False),
      (''disable_ht'', PBool False),
      (''enable_dpdk'', PBool False),
      (''power_mode'', PStr ''default''),
      (''topology_policy'', PStr ''restricted''),
      (''split_reserved_across_numa'', PBool True),
      (''per_pod_power_management'', PBool True)]"

definition TEMPLATES_store :: store where
  "TEMPLATES_store =
     [config_ran_5g,
      config_telco_vnf,
      config_database,
      config_ai_inference,
      config_hpc,
      config_low_latency_trading,
      config_media_processing]"

definition TEMPLATES :: "(string \<times> template) list" where
  "TEMPLATES =
     [(''5g-ran'',
       \<lparr>name = ''5G RAN (Radio Access Network)'',
        description =
          ''Optimized for 5G Radio Access Network workloads requiring ultra-low ''
            @ ''latency and deterministic performance. Uses real-time kernel, disabled ''
            @ ''hyperthreading, and aggressive power settings.'',
        default_config = Some 0,
        recommended_hugepages =
          \<lparr>hint_size = ''1G'',
           hint_note = ''1G hugepages recommended for DPDK packet processing''\<rparr>,
        use_cases =
          [''5G base station processing'',
           ''Real-time radio signal processing'',
           ''Ultra-low latency packet processing'']\<rparr>),
      (''telco-vnf'',
       \<lparr>name = ''Telco VNF (Virtual Network Function)'',
        description =
          ''Optimized for Telco VNF workloads including packet processing, session ''
            @ ''border controllers, and network functions. Enables RT kernel and DPDK ''
            @ ''for high-performance networking.'',
        default_config = Some 1,
        recommended_hugepages =
          \<lparr>hint_size = ''1G'',
           hint_note = ''1G hugepages recommended for DPDK''\<rparr>,
        use_cases =
          [''Virtual routers'',
           ''Session border controllers'',
           ''Packet gateways'',
           ''DPI (Deep Packet Inspection)'']\<rparr>),
      (''database'',
       \<lparr>name = ''Database Server'',
        description =
          ''Optimized for database workloads requiring memory optimization and ''
            @ ''consistent performance. Uses hugepages for memory management but does ''
            @ ''not require RT kernel.'',
        default_config = Some 2,
        recommended_hugepages =
          \<lparr>hint_size = ''2M'',
           hint_note = ''2M hugepages for database shared memory buffers''\<rparr>,
        use_cases =
          [''PostgreSQL'',
           ''MySQL/MariaDB'',
           ''MongoDB'',
           ''Oracle Database'']\<rparr>),
      (''ai-inference'',
       \<lparr>name = ''AI/ML Inference'',
        description =
          ''Optimized for AI/ML inference workloads requiring CPU isolation and ''
            @ ''consistent performance. Does not use RT kernel but isolates CPUs for ''
            @ ''predictable inference latency.'',
        default_config = Some 3,
        recommended_hugepages =
          \<lparr>hint_size = ''2M'',
           hint_note = ''2M hugepages for model data structures''\<rparr>,
        use_cases =
          [''TensorFlow Serving'',
           ''PyTorch inference'',
           ''ONNX Runtime'',
           ''Real-time AI inference'']\<rparr>),
      (''hpc'',
       \<lparr>name = ''High Performance Computing'',
        description =
          ''Optimized for HPC workloads requiring maximum compute throughput and ''
            @ ''NUMA awareness. Focuses on CPU isolation and memory locality.'',
        default_config = Some 4,
        recommended_hugepages =
          \<lparr>hint_size = ''1G'',
           hint_note = ''1G hugepages for large memory allocations''\<rparr>,
        use_cases =
          [''Scientific computing'',
           ''Computational fluid dynamics'',
           ''Molecular dynamics'',
           ''Weather simulation'']\<rparr>),
      (''low-latency-trading'',
       \<lparr>name = ''Low-Latency Trading'',
        description =
          ''Optimized for financial trading systems requiring microsecond latency. ''
            @ ''Uses RT kernel, disabled HT, and ultra-low-latency power mode.'',
        default_config = Some 5,
        recommended_hugepages =
          \<lparr>hint_size = ''1G'',
           hint_note = ''1G hugepages for lock-free data structures''\<rparr>,
        use_cases =
          [''High-frequency trading'',
           ''Market data processing'',
           ''Order matching engines'',
           ''Risk calculation engines'']\<rparr>),
      (''media-processing'',
       \<lparr>name = ''Media Processing'',
        description =
          ''Optimized for real-time media encoding/transcoding workloads. Balances ''
            @ ''between throughput and latency.'',
        default_config = Some 6,
        recommended_hugepages =
          \<lparr>hint_size = ''2M'',
           hint_note = ''2M hugepages for frame buffers''\<rparr>,
        use_cases =
          [''Video transcoding'',
           ''Live streaming'',
           ''Real-time video processing'',
           ''Audio processing'']\<rparr>)]"

text \<open>\<open>get_template\<close>: \<open>TEMPLATES.get(workload_type)\<close>.\<close>

definition get_template :: "string \<Rightarrow> template option" where
  "get_template wt = map_of TEMPLATES wt"

subsection \<open>Synthesis\<close>

text \<open>The loop over \<open>overrides.items()\<close>, on the contents of the dict it writes to.\<close>

fun apply_overrides :: "pydict \<Rightarrow> pydict \<Rightarrow> pydict" where
  "apply_overrides [] params = params"
| "apply_overrides ((key, val) # rest) params =
     apply_overrides rest (if val \<noteq> PNone then dict_set params key val else params)"

text \<open>
  The contents of \<open>params\<close> before \<open>_adjust_parameters\<close> runs, from the contents \<open>seed\<close> it
  starts with: the two names, the heuristic, the overrides.
\<close>

definition merge_parameters ::
  "summary \<Rightarrow> string \<Rightarrow> string \<Rightarrow> string \<Rightarrow> pydict \<Rightarrow> pydict \<Rightarrow> pydict" where
  "merge_parameters summ wt mcp_name profile_name seed overrides =
     (let p1 = dict_set seed ''mcp_name'' (PStr mcp_name);
          p2 = dict_set p1 ''profile_name'' (PStr profile_name);
          p3 = (if map_of overrides ''reserved_cpu_count'' = None
                   \<or> map_of overrides ''reserved_cpu_count'' = Some PNone
                then (if map_of p2 ''reserved_cpu_count'' = None
                      then dict_set p2 ''reserved_cpu_count'' (PInt (calculate_reserved_cpus summ wt))
                      else p2)
                else p2)
      in apply_overrides overrides p3)"

text \<open>
  What \<open>params\<close> starts from: the contents of the template's \<open>default_config\<close> (of an empty dict
  when the template has none), or the base defaults without a template.
\<close>

definition seed_parameters :: "store \<Rightarrow> template option \<Rightarrow> pydict" where
  "seed_parameters st tmpl =
     (case tmpl of
        None \<Rightarrow> get_base_defaults
      | Some t \<Rightarrow> (case default_config t of None \<Rightarrow> [] | Some a \<Rightarrow> st ! a))"

text \<open>
  \<open>generate_parameters\<close>. With a template, \<open>params\<close> is the \<open>.copy()\<close> of its \<open>default_config\<close>;
  without one, the dict \<open>_get_base_defaults\<close> builds. Either way it is a new object, and every
  later write goes to it. The result is the address of \<open>params\<close> and the store after the call.
\<close>

definition generate_parameters ::
  "summary \<Rightarrow> store \<Rightarrow> string \<Rightarrow> string \<Rightarrow> string \<Rightarrow> template option \<Rightarrow> pydict
     \<Rightarrow> error + (nat \<times> store)" where
  "generate_parameters summ st wt mcp_name profile_name tmpl overrides =
     (let (params, st1) = alloc st (seed_parameters st tmpl);
          st2 = st1[params := merge_parameters summ wt mcp_name profile_name (st1 ! params) overrides]
      in case adjust_parameters summ (st2 ! params) of
           Inl e \<Rightarrow> Inl e
         | Inr adjusted \<Rightarrow> Inr (params, st2[params := adjusted]))"

section \<open>Sample inputs\<close>

text \<open>
  The topology of the repository's own test script (48 CPUs, two NUMA nodes, hyperthreading,
  architecture \<open>amd64\<close>), the empty request, and an interpretation of the float operations that
  forgets the number, for running the model where the estimate is not looked at.
\<close>

definition topology_48 :: summary where
  "topology_48 =
     \<lparr>cpus_per_node = Some 48, numa_nodes_per_node = Some 2,
      hyperthreading_enabled = Some True, architectures = Some [''amd64'']\<rparr>"

definition no_requirements :: requirements where
  "no_requirements =
     \<lparr>workload_type = None, isolated_cpu_count = None, reserved_cpu_count = None,
      enable_rt_kernel = None, enable_dpdk = None, hugepages_size = None,
      hugepages_count = None, power_mode = None, per_pod_power_management = None\<rparr>"

definition float_forget :: "unit float_ops" where
  "float_forget =
     \<lparr>py_float = (\<lambda>s. Some ()), fdiv = (\<lambda>x n. ()), fmul = (\<lambda>x n. Some ()),
      fmt2 = (\<lambda>x. ''0.00'')\<rparr>"

text \<open>
  The test script's second validator case, commented there as "Too many!" and expected to be
  invalid.
\<close>

definition request_database_46 :: requirements where
  "request_database_46 =
     no_requirements\<lparr>workload_type := Some ''database'', reserved_cpu_count := Some 46,
       enable_rt_kernel := Some False\<rparr>"

text \<open>A request that reserves 8 CPUs and asks for huge pages of size \<open>3M\<close>.\<close>

definition request_3M :: requirements where
  "request_3M = no_requirements\<lparr>reserved_cpu_count := Some 8, hugepages_size := Some ''3M''\<rparr>"

section \<open>Notions used by the statements\<close>


text \<open>The same request with a huge-page count of zero.\<close>

definition request_3M_count_0 :: requirements where
  "request_3M_count_0 = request_3M\<lparr>hugepages_count := Some 0\<rparr>"


text \<open>
  A parameter dict with both conflicts and room to split the reserved CPUs, and the overrides
  of the power-management scenario.
\<close>

definition params_conflicting :: pydict where
  "params_conflicting =
     [(''per_pod_power_management'', PBool True),
      (''power_mode'', PStr ''low-latency''),
      (''enable_dpdk'', PBool True),
      (''topology_policy'', PStr ''best-effort''),
      (''reserved_cpu_count'', PInt 8)]"

definition params_resolved :: pydict where
  "params_resolved =
     [(''per_pod_power_management'', PBool True),
      (''power_mode'', PStr ''default''),
      (''enable_dpdk'', PBool True),
      (''topology_policy'', PStr ''single-numa-node''),
      (''reserved_cpu_count'', PInt 8),
      (''split_reserved_across_numa'', PBool True)]"

definition overrides_per_pod :: pydict where
  "overrides_per_pod =
     [(''per_pod_power_management'', PBool True),
      (''power_mode'', PStr ''low-latency'')]"

text \<open>
  The parameter dict of the power-management scenario (no template, 48 CPUs, workload type
  \<open>custom\<close>) before and after conflict resolution.
\<close>

definition params_per_pod_merged :: pydict where
  "params_per_pod_merged =
     [(''enable_rt_kernel'', PBool False),
      (''disable_ht'', PBool False),
      (''enable_dpdk'', PBool False),
      (''power_mode'', PStr ''low-latency''),
      (''topology_policy'', PStr ''restricted''),
      (''split_reserved_across_numa'', PBool False),
      (''per_pod_power_management'', PBool True),
      (''mcp_name'', PStr ''worker-cnf''),
      (''profile_name'', PStr ''performance''),
      (''reserved_cpu_count'', PInt 4)]"

definition params_per_pod_resolved :: pydict where
  "params_per_pod_resolved =
     [(''enable_rt_kernel'', PBool False),
      (''disable_ht'', PBool False),
      (''enable_dpdk'', PBool False),
      (''power_mode'', PStr ''default''),
      (''topology_policy'', PStr ''restricted''),
      (''split_reserved_across_numa'', PBool True),
      (''per_pod_power_management'', PBool True),
      (''mcp_name'', PStr ''worker-cnf''),
      (''profile_name'', PStr ''performance''),
      (''reserved_cpu_count'', PInt 4)]"

text \<open>
  The catalog's \<open>media-processing\<close> template, and the parameter dict synthesized from it for 48
  CPUs under the overrides of the power-management scenario.
\<close>

definition template_media :: template where
  "template_media = the (get_template ''media-processing'')"

definition params_media_resolved :: pydict where
  "params_media_resolved =
     [(''enable_rt_kernel'', PBool False),
      (''disable_ht'', PBool False),
      (''enable_dpdk'', PBool False),
      (''power_mode'', PStr ''default''),
      (''topology_policy'', PStr ''restricted''),
      (''split_reserved_across_numa'', PBool True),
      (''per_pod_power_management'', PBool True),
      (''mcp_name'', PStr ''worker-cnf''),
      (''profile_name'', PStr ''performance''),
      (''reserved_cpu_count'', PInt 4)]"

section \<open>Properties of the validator\<close>

subsection \<open>What a returned report is made of\<close>

lemma validate_Inr:
  assumes "validate fo summ req = Inr rep"
  obtains rt hp where "validate_rt_kernel summ req = Inr rt"
    and "validate_hugepages fo summ req = Inr hp"
    and "is_valid rep = cpu_is_valid (validate_cpu summ req)"
    and "errors rep = (if cpu_is_valid (validate_cpu summ req) then []
                       else cpu_errors (validate_cpu summ req))"
    and "warnings rep = cpu_warnings (validate_cpu summ req) @ rt_warnings rt
           @ (if hp_is_valid hp then [] else hp_errors hp)
           @ pm_warnings (validate_power_mode req)"
    and "recommendations rep = cpu_recommendations (validate_cpu summ req)
           @ rt_recommendations rt @ hp_recommendations hp"
    and "checks rep = \<lparr>cpu = validate_cpu summ req, rt_kernel = rt, hugepages = hp,
           power_mode_check = validate_power_mode req\<rparr>"
  using assms unfolding validate_def Let_def
  by (auto split: sum.splits if_splits)

subsection \<open>The fit check with a derived isolated count\<close>

text \<open>
  With \<open>isolated_cpu_count\<close> absent the check adds \<open>cpus_per_node - reserved\<close> back to
  \<open>reserved\<close>, so the total it compares with \<open>cpus_per_node\<close> is \<open>cpus_per_node\<close> itself and the
  comparison never holds.
\<close>

lemma validate_cpu_derived_fits:
  "reserved_cpu_count req = Some n \<Longrightarrow> isolated_cpu_count req = None \<Longrightarrow>
     cpu_is_valid (validate_cpu summ req) \<and> cpu_errors (validate_cpu summ req) = []"
  by (simp add: validate_cpu_def Let_def)

text \<open>
  Claim C1 (the code differs). The claim: with \<open>reserved_cpu_count\<close> supplied,
  \<open>isolated_cpu_count\<close> absent and \<open>reserved_cpu_count \<ge> cpus_per_node\<close>, the report is invalid
  with a sizing error; in particular for 48 CPUs and 46 reserved. The code at that input, and
  at 48 reserved of 48: the report is valid and has no error.
\<close>

theorem validate_reserved_46_of_48_is_valid:
  "(\<exists>rep. validate fo topology_48 request_database_46 = Inr rep
          \<and> is_valid rep \<and> errors rep = [])
   \<and> (\<exists>rep. validate fo topology_48 (request_database_46\<lparr>reserved_cpu_count := Some 48\<rparr>) = Inr rep
          \<and> is_valid rep \<and> errors rep = [])"
  by (simp add: validate_def validate_cpu_def validate_rt_kernel_def validate_hugepages_def
      first_architecture_def get_or_def topology_48_def request_database_46_def
      no_requirements_def truthy_str_def Let_def)

subsection \<open>Exceptions\<close>

text \<open>
  Claim C4 (the code differs). The claim: \<open>validate\<close> never raises, also for an empty
  \<open>architectures\<close> list. The code: with an empty list the real-time kernel check indexes it and
  raises \<open>IndexError\<close>, whatever the request.
\<close>

theorem validate_empty_architectures_raises:
  "validate fo (summ\<lparr>architectures := Some []\<rparr>) req = Inl IndexError"
  by (simp add: validate_def validate_rt_kernel_def first_architecture_def get_or_def Let_def)

text \<open>
  A second way to an exception: a size whose number does not parse, with a count. \<open>float("")\<close>
  raises \<open>ValueError\<close> in Python, so the size \<open>G\<close> with a count of 1 gives no report.
\<close>

lemma upper_G: "upper ''G'' = ''G''"
  by (simp add: upper_def upper_char_def)

lemma validate_unparsable_size_raises:
  assumes "py_float fo [] = None"
  shows "validate fo topology_48
           (no_requirements\<lparr>hugepages_size := Some ''G'', hugepages_count := Some 1\<rparr>)
         = Inl ValueError"
  using assms
  by (simp add: validate_def validate_rt_kernel_def validate_hugepages_def hugepage_to_gb_def
      first_architecture_def get_or_def topology_48_def no_requirements_def truthy_str_def
      truthy_int_def endswith_def upper_G Let_def)

subsection \<open>The aggregate validity\<close>

lemma validate_request_3M:
  "validate fo topology_48 request_3M =
     Inr \<lparr>is_valid = True, errors = [],
          warnings = [msg_invalid_size_x86 ''3M''],
          recommendations = [msg_isolated_derived 40, msg_numa_align 2, msg_ht, msg_count_missing],
          checks = \<lparr>cpu = \<lparr>cpu_is_valid = True, cpu_errors = [], cpu_warnings = [],
                           cpu_recommendations = [msg_isolated_derived 40, msg_numa_align 2, msg_ht]\<rparr>,
                    rt_kernel = \<lparr>rt_is_valid = True, rt_warnings = [], rt_recommendations = []\<rparr>,
                    hugepages = \<lparr>hp_is_valid = False, hp_errors = [msg_invalid_size_x86 ''3M''],
                                 hp_recommendations = [msg_count_missing]\<rparr>,
                    power_mode_check = \<lparr>pm_warnings = [], pm_recommendations = []\<rparr>\<rparr>,
          overall_status = status_valid\<rparr>"
  by (simp add: validate_def validate_cpu_def validate_rt_kernel_def validate_hugepages_def
      validate_power_mode_def size_errors_def valid_sizes_x86_def truthy_int_def
      first_architecture_def get_or_def topology_48_def request_3M_def
      no_requirements_def truthy_str_def Let_def)

text \<open>The CPU check reads three keys of the summary and two of the request.\<close>

lemma validate_cpu_cong:
  assumes "cpus_per_node s = cpus_per_node s'" "numa_nodes_per_node s = numa_nodes_per_node s'"
    "hyperthreading_enabled s = hyperthreading_enabled s'"
    "reserved_cpu_count r = reserved_cpu_count r'" "isolated_cpu_count r = isolated_cpu_count r'"
  shows "validate_cpu s r = validate_cpu s' r'"
  unfolding validate_cpu_def assms ..

text \<open>
  Claim C2 as stated fails: the aggregate \<open>is_valid\<close> would be true exactly when the CPU check
  and the huge-pages check are both valid. For 48 CPUs, 8 reserved and size \<open>3M\<close> on \<open>amd64\<close> the
  huge-pages check is invalid and the aggregate is valid.
\<close>

theorem validate_is_valid_not_both_checks:
  "\<not> (is_valid (projr (validate float_forget topology_48 request_3M))
       \<longleftrightarrow> (cpu_is_valid (cpu (checks (projr (validate float_forget topology_48 request_3M))))
            \<and> hp_is_valid (hugepages (checks (projr (validate float_forget topology_48 request_3M))))))"
  by (simp add: validate_request_3M)

text \<open>
  Claim C2, amended: the aggregate \<open>is_valid\<close> of a returned report is the \<open>is_valid\<close> of the CPU
  check alone. It is the same whatever the architecture list and whatever the request fields
  that the real-time kernel, huge-pages and power-mode checks read: none of the three affects
  it.
\<close>

theorem validate_is_valid_cpu_only:
  assumes "validate fo summ req = Inr rep"
  shows "is_valid rep = cpu_is_valid (cpu (checks rep))
     \<and> is_valid rep = cpu_is_valid (validate_cpu (summ\<lparr>architectures := a\<rparr>)
          (req\<lparr>workload_type := wt, enable_rt_kernel := rt, enable_dpdk := dpdk,
               hugepages_size := hsz, hugepages_count := hcnt, power_mode := pm,
               per_pod_power_management := ppm\<rparr>))"
proof -
  from assms have 1: "is_valid rep = cpu_is_valid (validate_cpu summ req)"
    and 2: "cpu (checks rep) = validate_cpu summ req"
    by (auto elim!: validate_Inr)
  have 3: "validate_cpu (summ\<lparr>architectures := a\<rparr>)
          (req\<lparr>workload_type := wt, enable_rt_kernel := rt, enable_dpdk := dpdk,
               hugepages_size := hsz, hugepages_count := hcnt, power_mode := pm,
               per_pod_power_management := ppm\<rparr>) = validate_cpu summ req"
    by (rule validate_cpu_cong) simp_all
  show ?thesis unfolding 1 2 3 by simp
qed

theorem validate_is_valid_cpu_only_witness:
  "validate float_forget topology_48 request_3M
     = Inr (projr (validate float_forget topology_48 request_3M))
   \<and> is_valid (projr (validate float_forget topology_48 request_3M))
   \<and> cpu_is_valid (validate_cpu (topology_48\<lparr>architectures := Some [''aarch64'']\<rparr>)
          (request_3M\<lparr>workload_type := Some ''5g-ran'', enable_rt_kernel := Some True,
               enable_dpdk := Some True,
               hugepages_size := Some ''7Q'', hugepages_count := Some 3,
               power_mode := Some ''low-latency'',
               per_pod_power_management := Some True\<rparr>))"
proof -
  have h: "validate float_forget topology_48 request_3M
             = Inr (projr (validate float_forget topology_48 request_3M))"
    by (simp add: validate_request_3M)
  have v: "is_valid (projr (validate float_forget topology_48 request_3M))"
    by (simp add: validate_request_3M)
  note t = validate_is_valid_cpu_only [OF h, where a = "Some [''aarch64'']"
        and wt = "Some ''5g-ran''" and rt = "Some True" and dpdk = "Some True"
        and hsz = "Some ''7Q''" and hcnt = "Some 3" and pm = "Some ''low-latency''"
        and ppm = "Some True", THEN conjunct2]
  have c: "cpu_is_valid (validate_cpu (topology_48\<lparr>architectures := Some [''aarch64'']\<rparr>)
          (request_3M\<lparr>workload_type := Some ''5g-ran'', enable_rt_kernel := Some True,
               enable_dpdk := Some True,
               hugepages_size := Some ''7Q'', hugepages_count := Some 3,
               power_mode := Some ''low-latency'',
               per_pod_power_management := Some True\<rparr>))"
    using v unfolding t .
  from h v c show ?thesis by (intro conjI)
qed

subsection \<open>Huge-page size errors at the aggregate level\<close>








subsection \<open>A huge-page count of zero\<close>

text \<open>What the other three checks read of the request.\<close>

lemma validate_rt_kernel_cong:
  assumes "enable_rt_kernel r = enable_rt_kernel r'" "workload_type r = workload_type r'"
  shows "validate_rt_kernel s r = validate_rt_kernel s r'"
  unfolding validate_rt_kernel_def assms ..

lemma validate_hugepages_cong:
  assumes "enable_dpdk r = enable_dpdk r'" "hugepages_size r = hugepages_size r'"
    "truthy_int (hugepages_count r) = truthy_int (hugepages_count r')"
    "truthy_int (hugepages_count r) \<Longrightarrow> hugepages_count r = hugepages_count r'"
  shows "validate_hugepages fo s r = validate_hugepages fo s r'"
proof (cases "truthy_int (hugepages_count r)")
  case True
  with assms(4) have eq: "hugepages_count r = hugepages_count r'" by simp
  show ?thesis unfolding validate_hugepages_def assms(1,2) eq ..
next
  case False
  then have f1: "truthy_int (hugepages_count r) = False" by simp
  with assms(3) have f2: "truthy_int (hugepages_count r') = False" by simp
  show ?thesis unfolding validate_hugepages_def assms(1,2) f1 f2 if_False ..
qed

lemma validate_power_mode_cong:
  assumes "power_mode r = power_mode r'"
    "per_pod_power_management r = per_pod_power_management r'"
  shows "validate_power_mode r = validate_power_mode r'"
  unfolding validate_power_mode_def assms ..

lemma validate_count_zero_absent:
  "validate fo summ (req\<lparr>hugepages_count := Some 0\<rparr>)
     = validate fo summ (req\<lparr>hugepages_count := None\<rparr>)"
proof -
  have c: "validate_cpu summ (req\<lparr>hugepages_count := Some 0\<rparr>)
             = validate_cpu summ (req\<lparr>hugepages_count := None\<rparr>)"
    by (rule validate_cpu_cong) simp_all
  have r: "validate_rt_kernel summ (req\<lparr>hugepages_count := Some 0\<rparr>)
             = validate_rt_kernel summ (req\<lparr>hugepages_count := None\<rparr>)"
    by (rule validate_rt_kernel_cong) simp_all
  have h: "validate_hugepages fo summ (req\<lparr>hugepages_count := Some 0\<rparr>)
             = validate_hugepages fo summ (req\<lparr>hugepages_count := None\<rparr>)"
    by (rule validate_hugepages_cong) (simp_all add: truthy_int_def)
  have p: "validate_power_mode (req\<lparr>hugepages_count := Some 0\<rparr>)
             = validate_power_mode (req\<lparr>hugepages_count := None\<rparr>)"
    by (rule validate_power_mode_cong) simp_all
  show ?thesis unfolding validate_def c r h p ..
qed

lemma cpu_recommendations_cases:
  "set (cpu_recommendations (validate_cpu summ req)) \<subseteq>
     {msg_reserve_more, msg_ht} \<union> {m. \<exists>i. m = msg_isolated_derived i}
       \<union> {m. \<exists>n. m = msg_numa_align n}"
  by (auto simp: validate_cpu_def Let_def split: option.splits)

lemma rt_recommendations_cases:
  "validate_rt_kernel summ req = Inr rt \<Longrightarrow>
     set (rt_recommendations rt) \<subseteq> {msg_rt_enabled} \<union> {m. \<exists>wt. m = msg_rt_recommended wt}"
  by (auto simp: validate_rt_kernel_def Let_def split: sum.splits if_splits)

lemma hp_recommendations_no_count:
  assumes "validate_hugepages fo summ req = Inr hp" "hugepages_size req = Some sz" "sz \<noteq> []"
    "hugepages_count req = Some 0 \<or> hugepages_count req = None"
  shows "hp_recommendations hp = [msg_count_missing]"
  using assms unfolding validate_hugepages_def Let_def
  by (auto simp: truthy_str_def truthy_int_def split: sum.splits if_splits)

lemma reserve_not_other:
  "msg_hugepages_reserve txt \<noteq> msg_reserve_more"
  "msg_hugepages_reserve txt \<noteq> msg_ht"
  "msg_hugepages_reserve txt \<noteq> msg_isolated_derived i"
  "msg_hugepages_reserve txt \<noteq> msg_numa_align n"
  "msg_hugepages_reserve txt \<noteq> msg_rt_enabled"
  "msg_hugepages_reserve txt \<noteq> msg_rt_recommended wt"
  "msg_hugepages_reserve txt \<noteq> msg_count_missing"
  by (simp_all add: msg_hugepages_reserve_def msg_reserve_more_def msg_ht_def
      msg_isolated_derived_def msg_numa_align_def msg_rt_enabled_def msg_rt_recommended_def
      msg_count_missing_def)


text \<open>
  Claim C10. For a request that gives a huge-page size (a non-empty string, as
  \<open>if hugepage_size:\<close> tests it) with \<open>hugepages_count = 0\<close>, a report \<open>validate\<close> returns is the
  report it returns with the count absent; it recommends to specify the count and holds no
  memory estimate.
\<close>

theorem validate_count_zero_as_absent:
  assumes "validate fo summ req = Inr rep"
    and "hugepages_size req = Some sz" and "sz \<noteq> []"
    and "hugepages_count req = Some 0"
  shows "validate fo summ (req\<lparr>hugepages_count := None\<rparr>) = Inr rep
     \<and> msg_count_missing \<in> set (recommendations rep)
     \<and> (\<forall>txt. msg_hugepages_reserve txt \<notin> set (recommendations rep))"
proof -
  have "req\<lparr>hugepages_count := Some 0\<rparr> = req"
    using assms(4) by simp
  then have same: "validate fo summ (req\<lparr>hugepages_count := None\<rparr>) = Inr rep"
    using validate_count_zero_absent [of fo summ req] assms(1) by simp
  from assms(1) obtain rt hp where rt: "validate_rt_kernel summ req = Inr rt"
    and hp: "validate_hugepages fo summ req = Inr hp"
    and r: "recommendations rep = cpu_recommendations (validate_cpu summ req)
           @ rt_recommendations rt @ hp_recommendations hp"
    by (rule validate_Inr)
  have hr: "hp_recommendations hp = [msg_count_missing]"
    using hp_recommendations_no_count [OF hp assms(2,3)] assms(4) by blast
  have mem: "msg_count_missing \<in> set (recommendations rep)"
    by (simp add: r hr)
  have none: "msg_hugepages_reserve tx \<notin> set (recommendations rep)" for tx
  proof
    assume "msg_hugepages_reserve tx \<in> set (recommendations rep)"
    then consider "msg_hugepages_reserve tx \<in> set (cpu_recommendations (validate_cpu summ req))"
      | "msg_hugepages_reserve tx \<in> set (rt_recommendations rt)"
      | "msg_hugepages_reserve tx = msg_count_missing"
      by (auto simp: r hr)
    then show False
    proof cases
      case 1
      with cpu_recommendations_cases [of summ req]
      have "msg_hugepages_reserve tx = msg_reserve_more \<or> msg_hugepages_reserve tx = msg_ht
          \<or> (\<exists>i. msg_hugepages_reserve tx = msg_isolated_derived i)
          \<or> (\<exists>n. msg_hugepages_reserve tx = msg_numa_align n)"
        by blast
      then show False using reserve_not_other by blast
    next
      case 2
      with rt_recommendations_cases [OF rt]
      have "msg_hugepages_reserve tx = msg_rt_enabled
          \<or> (\<exists>wt. msg_hugepages_reserve tx = msg_rt_recommended wt)"
        by blast
      then show False using reserve_not_other by blast
    next
      case 3
      then show False using reserve_not_other by blast
    qed
  qed
  from same mem none show ?thesis by blast
qed

theorem validate_count_zero_as_absent_witness:
  "validate float_forget topology_48 request_3M_count_0
     = Inr (projr (validate float_forget topology_48 request_3M_count_0))
   \<and> hugepages_size request_3M_count_0 = Some ''3M'' \<and> ''3M'' \<noteq> []
   \<and> hugepages_count request_3M_count_0 = Some 0
   \<and> validate float_forget topology_48 (request_3M_count_0\<lparr>hugepages_count := None\<rparr>)
       = Inr (projr (validate float_forget topology_48 request_3M_count_0))
   \<and> msg_count_missing
       \<in> set (recommendations (projr (validate float_forget topology_48 request_3M_count_0)))
   \<and> (\<forall>txt. msg_hugepages_reserve txt
       \<notin> set (recommendations (projr (validate float_forget topology_48 request_3M_count_0))))"
proof -
  have n: "request_3M\<lparr>hugepages_count := None\<rparr> = request_3M"
    by (simp add: request_3M_def no_requirements_def)
  have v: "validate float_forget topology_48 request_3M_count_0
             = validate float_forget topology_48 request_3M"
    unfolding request_3M_count_0_def validate_count_zero_absent n ..
  have h1: "validate float_forget topology_48 request_3M_count_0
     = Inr (projr (validate float_forget topology_48 request_3M_count_0))"
    unfolding v by (simp add: validate_request_3M)
  have h2: "hugepages_size request_3M_count_0 = Some ''3M''"
    by (simp add: request_3M_count_0_def request_3M_def)
  have h3: "''3M'' \<noteq> []" by simp
  have h4: "hugepages_count request_3M_count_0 = Some 0"
    by (simp add: request_3M_count_0_def)
  from h1 h2 h3 h4 validate_count_zero_as_absent [OF h1 h2 h3 h4] show ?thesis by (intro conjI) blast+
qed

section \<open>Properties of the synthesizer\<close>

subsection \<open>The value of the reserved-CPU heuristic\<close>






subsection \<open>Monotonicity of the reserved-CPU heuristic\<close>





subsection \<open>Conflict resolution\<close>

lemma dict_get_dict_set:
  "dict_get (dict_set d k v) k' = (if k' = k then v else dict_get d k')"
  by (simp add: dict_get_def dict_set_def update_conv')

lemma dict_get_default_dict_set:
  "dict_get_default (dict_set d k v) k' dflt = (if k' = k then v else dict_get_default d k' dflt)"
  by (simp add: dict_get_default_def dict_set_def update_conv')

text \<open>
  Claim C5. Whenever \<open>_adjust_parameters\<close> returns, running it again on what it returned
  returns the same dict: it is idempotent, for every parameter dict and every topology.
\<close>

theorem adjust_parameters_idempotent:
  assumes "adjust_parameters summ params = Inr params'"
  shows "adjust_parameters summ params' = Inr params'"
proof -
  define p1 where "p1 = (if truthy (dict_get params ''per_pod_power_management'')
                   \<and> dict_get params ''power_mode'' \<noteq> PStr ''default''
                then dict_set params ''power_mode'' (PStr ''default'') else params)"
  define p2 where "p2 = (if truthy (dict_get p1 ''enable_dpdk'')
                   \<and> dict_get p1 ''topology_policy''
                       \<notin> set [PStr ''single-numa-node'', PStr ''restricted'']
                then dict_set p1 ''topology_policy'' (PStr ''single-numa-node'') else p1)"
  define numa where "numa = get_or (numa_nodes_per_node summ) 1"
  have a: "adjust_parameters summ params =
      (if numa > 1 \<and> \<not> truthy (dict_get p2 ''split_reserved_across_numa'') then
           (case as_number (dict_get_default p2 ''reserved_cpu_count'' (PInt 0)) of
              None \<Rightarrow> Inl TypeError
            | Some reserved \<Rightarrow>
                Inr (if reserved \<ge> numa * 2
                     then dict_set p2 ''split_reserved_across_numa'' (PBool True) else p2))
         else Inr p2)"
    unfolding adjust_parameters_def p1_def p2_def numa_def Let_def ..
  have c1: "\<not> (truthy (dict_get p1 ''per_pod_power_management'')
                   \<and> dict_get p1 ''power_mode'' \<noteq> PStr ''default'')"
    by (simp add: p1_def dict_get_dict_set)
  have c2: "\<not> (truthy (dict_get p2 ''enable_dpdk'')
                   \<and> dict_get p2 ''topology_policy''
                       \<notin> set [PStr ''single-numa-node'', PStr ''restricted''])"
    by (simp add: p2_def dict_get_dict_set)
  have c1': "\<not> (truthy (dict_get p2 ''per_pod_power_management'')
                   \<and> dict_get p2 ''power_mode'' \<noteq> PStr ''default'')"
    using c1 by (simp add: p2_def dict_get_dict_set)
  have fix2: "adjust_parameters summ q =
      (if numa > 1 \<and> \<not> truthy (dict_get q ''split_reserved_across_numa'') then
           (case as_number (dict_get_default q ''reserved_cpu_count'' (PInt 0)) of
              None \<Rightarrow> Inl TypeError
            | Some reserved \<Rightarrow>
                Inr (if reserved \<ge> numa * 2
                     then dict_set q ''split_reserved_across_numa'' (PBool True) else q))
         else Inr q)"
    if "\<not> (truthy (dict_get q ''per_pod_power_management'')
                   \<and> dict_get q ''power_mode'' \<noteq> PStr ''default'')"
       "\<not> (truthy (dict_get q ''enable_dpdk'')
                   \<and> dict_get q ''topology_policy''
                       \<notin> set [PStr ''single-numa-node'', PStr ''restricted''])" for q
  proof -
    from that(1) have f1: "(truthy (dict_get q ''per_pod_power_management'')
                   \<and> dict_get q ''power_mode'' \<noteq> PStr ''default'') = False" by simp
    from that(2) have f2: "(truthy (dict_get q ''enable_dpdk'')
                   \<and> dict_get q ''topology_policy''
                       \<notin> set [PStr ''single-numa-node'', PStr ''restricted'']) = False" by simp
    show ?thesis
      unfolding adjust_parameters_def Let_def numa_def f1 if_False f2 ..
  qed
  show ?thesis
  proof (cases "numa > 1 \<and> \<not> truthy (dict_get p2 ''split_reserved_across_numa'')")
    case False
    then have g: "(numa > 1 \<and> \<not> truthy (dict_get p2 ''split_reserved_across_numa'')) = False"
      by simp
    from assms have e: "params' = p2" unfolding a g if_False by simp
    show ?thesis unfolding e fix2 [OF c1' c2] g if_False ..
  next
    case True
    then have g: "(numa > 1 \<and> \<not> truthy (dict_get p2 ''split_reserved_across_numa'')) = True"
      by simp
    from assms obtain reserved where
      r: "as_number (dict_get_default p2 ''reserved_cpu_count'' (PInt 0)) = Some reserved"
      and p': "params' = (if reserved \<ge> numa * 2
                     then dict_set p2 ''split_reserved_across_numa'' (PBool True) else p2)"
      unfolding a g if_True by (auto split: option.splits)
    show ?thesis
    proof (cases "reserved \<ge> numa * 2")
      case False
      with p' have e: "params' = p2" by simp
      show ?thesis unfolding e fix2 [OF c1' c2] g if_True r using False by simp
    next
      case ge: True
      with p' have e: "params' = dict_set p2 ''split_reserved_across_numa'' (PBool True)" by simp
      have s: "(numa > 1 \<and> \<not> truthy (dict_get params' ''split_reserved_across_numa'')) = False"
        by (simp add: e dict_get_dict_set)
      have d1: "\<not> (truthy (dict_get params' ''per_pod_power_management'')
                   \<and> dict_get params' ''power_mode'' \<noteq> PStr ''default'')"
        using c1' by (simp add: e dict_get_dict_set)
      have d2: "\<not> (truthy (dict_get params' ''enable_dpdk'')
                   \<and> dict_get params' ''topology_policy''
                       \<notin> set [PStr ''single-numa-node'', PStr ''restricted''])"
        using c2 by (simp add: e dict_get_dict_set)
      show ?thesis unfolding fix2 [OF d1 d2] s if_False ..
    qed
  qed
qed

lemma adjust_params_conflicting:
  "adjust_parameters topology_48 params_conflicting = Inr params_resolved"
  by (simp add: adjust_parameters_def params_conflicting_def params_resolved_def topology_48_def
      dict_get_def dict_get_default_def dict_set_def get_or_def Let_def)

theorem adjust_parameters_idempotent_witness:
  "adjust_parameters topology_48 params_conflicting = Inr params_resolved
   \<and> adjust_parameters topology_48 params_resolved = Inr params_resolved"
  using adjust_params_conflicting adjust_parameters_idempotent [OF adjust_params_conflicting]
  by (intro conjI)

subsection \<open>Per-pod power management wins\<close>

lemma generate_parameters_Inr:
  assumes "generate_parameters summ st wt mcp pn tmpl ov = Inr (p, st')"
  obtains adjusted where "p = length st" and "st' = st @ [adjusted]"
    and "adjust_parameters summ (merge_parameters summ wt mcp pn (seed_parameters st tmpl) ov)
           = Inr adjusted"
  using assms unfolding generate_parameters_def alloc_def Let_def
  by (auto split: sum.splits)

lemma adjust_parameters_per_pod_wins:
  assumes "adjust_parameters summ q = Inr q'"
    and "truthy (dict_get q ''per_pod_power_management'')"
  shows "dict_get q' ''power_mode'' = PStr ''default''"
proof -
  define p1 where "p1 = (if truthy (dict_get q ''per_pod_power_management'')
                   \<and> dict_get q ''power_mode'' \<noteq> PStr ''default''
                then dict_set q ''power_mode'' (PStr ''default'') else q)"
  define p2 where "p2 = (if truthy (dict_get p1 ''enable_dpdk'')
                   \<and> dict_get p1 ''topology_policy''
                       \<notin> set [PStr ''single-numa-node'', PStr ''restricted'']
                then dict_set p1 ''topology_policy'' (PStr ''single-numa-node'') else p1)"
  have 1: "dict_get p1 ''power_mode'' = PStr ''default''"
    using assms(2) by (simp add: p1_def dict_get_dict_set)
  have 2: "dict_get p2 ''power_mode'' = PStr ''default''"
    using 1 by (simp add: p2_def dict_get_dict_set)
  have "q' = p2 \<or> q' = dict_set p2 ''split_reserved_across_numa'' (PBool True)"
    using assms(1) unfolding adjust_parameters_def p1_def p2_def Let_def
    by (auto split: if_splits option.splits)
  then show ?thesis using 2 by (auto simp: dict_get_dict_set)
qed

text \<open>
  Claim C7. When the merged parameter dict, as it is before conflict resolution, has
  \<open>per_pod_power_management\<close> true and a \<open>power_mode\<close> other than \<open>default\<close>, the dict that
  \<open>generate_parameters\<close> returns has \<open>power_mode = "default"\<close>.
\<close>

theorem generate_parameters_per_pod_wins:
  assumes "generate_parameters summ st wt mcp pn tmpl ov = Inr (p, st')"
    and "truthy (dict_get (merge_parameters summ wt mcp pn (seed_parameters st tmpl) ov)
           ''per_pod_power_management'')"
    and "dict_get (merge_parameters summ wt mcp pn (seed_parameters st tmpl) ov) ''power_mode''
           \<noteq> PStr ''default''"
  shows "dict_get (st' ! p) ''power_mode'' = PStr ''default''"
proof -
  from assms(1) obtain adjusted where p: "p = length st" and s: "st' = st @ [adjusted]"
    and a: "adjust_parameters summ (merge_parameters summ wt mcp pn (seed_parameters st tmpl) ov)
           = Inr adjusted"
    by (rule generate_parameters_Inr)
  have "st' ! p = adjusted" by (simp add: p s)
  with adjust_parameters_per_pod_wins [OF a assms(2)] show ?thesis by simp
qed



lemma merge_per_pod:
  "merge_parameters topology_48 ''custom'' ''worker-cnf'' ''performance''
     (seed_parameters [] None) overrides_per_pod = params_per_pod_merged"
  by (simp add: merge_parameters_def seed_parameters_def get_base_defaults_def
      overrides_per_pod_def params_per_pod_merged_def dict_set_def
      calculate_reserved_cpus_def topology_48_def get_or_def int_tenth_def Let_def)

lemma adjust_per_pod:
  "adjust_parameters topology_48 params_per_pod_merged = Inr params_per_pod_resolved"
  by (simp add: adjust_parameters_def params_per_pod_merged_def params_per_pod_resolved_def
      topology_48_def dict_get_def dict_get_default_def dict_set_def get_or_def Let_def)

lemma generate_per_pod:
  "generate_parameters topology_48 [] ''custom'' ''worker-cnf'' ''performance'' None
     overrides_per_pod = Inr (0, [params_per_pod_resolved])"
  by (simp add: generate_parameters_def alloc_def merge_per_pod adjust_per_pod)

theorem generate_parameters_per_pod_wins_witness:
  "generate_parameters topology_48 [] ''custom'' ''worker-cnf'' ''performance'' None
     overrides_per_pod = Inr (0, [params_per_pod_resolved])
   \<and> truthy (dict_get (merge_parameters topology_48 ''custom'' ''worker-cnf'' ''performance''
        (seed_parameters [] None) overrides_per_pod) ''per_pod_power_management'')
   \<and> dict_get (merge_parameters topology_48 ''custom'' ''worker-cnf'' ''performance''
        (seed_parameters [] None) overrides_per_pod) ''power_mode'' = PStr ''low-latency''
   \<and> dict_get ([params_per_pod_resolved] ! 0) ''power_mode'' = PStr ''default''"
proof -
  have h2: "truthy (dict_get (merge_parameters topology_48 ''custom'' ''worker-cnf''
        ''performance'' (seed_parameters [] None) overrides_per_pod) ''per_pod_power_management'')"
    by (simp add: merge_per_pod params_per_pod_merged_def dict_get_def)
  have e: "dict_get (merge_parameters topology_48 ''custom'' ''worker-cnf'' ''performance''
        (seed_parameters [] None) overrides_per_pod) ''power_mode'' = PStr ''low-latency''"
    by (simp add: merge_per_pod params_per_pod_merged_def dict_get_def)
  then have h3: "dict_get (merge_parameters topology_48 ''custom'' ''worker-cnf'' ''performance''
        (seed_parameters [] None) overrides_per_pod) ''power_mode'' \<noteq> PStr ''default''"
    by simp
  from generate_per_pod h2 e generate_parameters_per_pod_wins [OF generate_per_pod h2 h3] show ?thesis by (intro conjI)
qed

text \<open>
  The same for every call whose overrides, a dict, set \<open>per_pod_power_management\<close> to
  \<open>True\<close>: whatever \<open>power_mode\<close> the template or the overrides ask for, the result has
  \<open>default\<close>.
\<close>

lemma apply_overrides_other:
  "k \<notin> fst ` set ov \<Longrightarrow> map_of (apply_overrides ov q) k = map_of q k"
  by (induction ov arbitrary: q) (auto simp: dict_set_def update_conv')

lemma apply_overrides_given:
  "distinct (map fst ov) \<Longrightarrow> map_of ov k = Some v \<Longrightarrow> v \<noteq> PNone \<Longrightarrow>
     map_of (apply_overrides ov q) k = Some v"
proof (induction ov arbitrary: q)
  case Nil
  then show ?case by simp
next
  case (Cons kv ov)
  obtain k' v' where kv: "kv = (k', v')" by (cases kv)
  show ?case
  proof (cases "k' = k")
    case True
    with Cons.prems kv have v: "v' = v" and nk: "k \<notin> fst ` set ov" by auto
    show ?thesis
      using Cons.prems(3) by (simp add: kv True v apply_overrides_other [OF nk] dict_set_def update_conv')
  next
    case False
    with Cons.prems kv have "distinct (map fst ov)" and "map_of ov k = Some v" by auto
    then have "map_of (apply_overrides ov q') k = Some v" for q'
      using Cons.IH Cons.prems(3) by blast
    then show ?thesis by (simp add: kv)
  qed
qed

lemma generate_parameters_per_pod_override:
  assumes "generate_parameters summ st wt mcp pn tmpl ov = Inr (p, st')"
    and "distinct (map fst ov)"
    and "map_of ov ''per_pod_power_management'' = Some (PBool True)"
  shows "dict_get (st' ! p) ''power_mode'' = PStr ''default''"
proof -
  from assms(1) obtain adjusted where p: "p = length st" and s: "st' = st @ [adjusted]"
    and a: "adjust_parameters summ (merge_parameters summ wt mcp pn (seed_parameters st tmpl) ov)
           = Inr adjusted"
    by (rule generate_parameters_Inr)
  have "map_of (merge_parameters summ wt mcp pn (seed_parameters st tmpl) ov)
          ''per_pod_power_management'' = Some (PBool True)"
    unfolding merge_parameters_def Let_def
    using assms(2,3) by (intro apply_overrides_given) simp_all
  then have t: "truthy (dict_get (merge_parameters summ wt mcp pn (seed_parameters st tmpl) ov)
          ''per_pod_power_management'')"
    by (simp add: dict_get_def)
  have "st' ! p = adjusted" by (simp add: p s)
  with adjust_parameters_per_pod_wins [OF a t] show ?thesis by simp
qed

subsection \<open>The template is not written to\<close>

lemma generate_parameters_eq:
  "generate_parameters summ st wt mcp pn tmpl ov =
     (case adjust_parameters summ
             (merge_parameters summ wt mcp pn (seed_parameters st tmpl) ov) of
        Inl e \<Rightarrow> Inl e
      | Inr adjusted \<Rightarrow> Inr (length st, st @ [adjusted]))"
  unfolding generate_parameters_def alloc_def Let_def
  by (simp split: sum.splits)

lemma seed_parameters_frame:
  assumes "default_config t = Some a" and "a < length st"
  shows "seed_parameters (st @ xs) (Some t) = seed_parameters st (Some t)"
  using assms by (simp add: seed_parameters_def nth_append)

text \<open>
  Claim C9. A call of \<open>generate_parameters\<close> with a template whose \<open>default_config\<close> is a dict
  of the store leaves that dict, and every other dict that existed before the call, as it
  was: \<open>params\<close> is a new object, since the defaults are copied. A second call from the same
  template therefore starts from the same defaults and synthesizes the same parameters.
\<close>

theorem generate_parameters_leaves_template:
  assumes "generate_parameters summ st wt mcp pn (Some t) ov = Inr (p, st')"
    and "default_config t = Some a" and "a < length st"
  shows "p \<noteq> a \<and> st' ! a = st ! a \<and> take (length st) st' = st
     \<and> (\<exists>st''. generate_parameters summ st' wt mcp pn (Some t) ov = Inr (Suc p, st'')
            \<and> st'' ! Suc p = st' ! p)"
proof -
  from assms(1) obtain adjusted where p: "p = length st" and s: "st' = st @ [adjusted]"
    and a: "adjust_parameters summ (merge_parameters summ wt mcp pn (seed_parameters st (Some t)) ov)
           = Inr adjusted"
    by (rule generate_parameters_Inr)
  have 1: "p \<noteq> a" using assms(3) p by simp
  have 2: "st' ! a = st ! a" using assms(3) by (simp add: s nth_append)
  have 3: "take (length st) st' = st" by (simp add: s)
  have sd: "seed_parameters st' (Some t) = seed_parameters st (Some t)"
    unfolding s using assms(2,3) by (rule seed_parameters_frame)
  have g: "generate_parameters summ st' wt mcp pn (Some t) ov = Inr (Suc p, st' @ [adjusted])"
    unfolding generate_parameters_eq sd a by (simp add: p s)
  have 4: "(st' @ [adjusted]) ! Suc p = st' ! p"
    by (simp add: p s nth_append)
  from 1 2 3 g 4 show ?thesis by blast
qed

lemma template_media_config: "default_config template_media = Some 6"
  by (simp add: template_media_def get_template_def TEMPLATES_def)


lemma seed_media:
  "seed_parameters TEMPLATES_store (Some template_media) = config_media_processing"
  by (simp add: seed_parameters_def template_media_config TEMPLATES_store_def)

lemma merge_media:
  "merge_parameters topology_48 ''media-processing'' ''worker-cnf'' ''performance''
     config_media_processing overrides_per_pod
   = [(''enable_rt_kernel'', PBool False),
      (''disable_ht'', PBool False),
      (''enable_dpdk'', PBool False),
      (''power_mode'', PStr ''low-latency''),
      (''topology_policy'', PStr ''restricted''),
      (''split_reserved_across_numa'', PBool True),
      (''per_pod_power_management'', PBool True),
      (''mcp_name'', PStr ''worker-cnf''),
      (''profile_name'', PStr ''performance''),
      (''reserved_cpu_count'', PInt 4)]"
  by (simp add: merge_parameters_def config_media_processing_def
      overrides_per_pod_def dict_set_def
      calculate_reserved_cpus_def topology_48_def get_or_def int_tenth_def Let_def)

lemma generate_media:
  "generate_parameters topology_48 TEMPLATES_store ''media-processing'' ''worker-cnf''
     ''performance'' (Some template_media) overrides_per_pod
   = Inr (7, TEMPLATES_store @ [params_media_resolved])"
  unfolding generate_parameters_eq seed_media merge_media
  by (simp add: adjust_parameters_def params_media_resolved_def
      topology_48_def dict_get_def dict_get_default_def dict_set_def get_or_def Let_def
      TEMPLATES_store_def)

theorem generate_parameters_leaves_template_witness:
  "generate_parameters topology_48 TEMPLATES_store ''media-processing'' ''worker-cnf''
     ''performance'' (Some template_media) overrides_per_pod
     = Inr (7, TEMPLATES_store @ [params_media_resolved])
   \<and> default_config template_media = Some 6 \<and> 6 < length TEMPLATES_store
   \<and> (7::nat) \<noteq> 6
   \<and> (TEMPLATES_store @ [params_media_resolved]) ! 6 = TEMPLATES_store ! 6
   \<and> take (length TEMPLATES_store) (TEMPLATES_store @ [params_media_resolved]) = TEMPLATES_store
   \<and> (\<exists>st''. generate_parameters topology_48 (TEMPLATES_store @ [params_media_resolved])
               ''media-processing'' ''worker-cnf'' ''performance'' (Some template_media)
               overrides_per_pod = Inr (Suc 7, st'')
            \<and> st'' ! Suc 7 = (TEMPLATES_store @ [params_media_resolved]) ! 7)"
proof -
  have h3: "6 < length TEMPLATES_store" by (simp add: TEMPLATES_store_def)
  from generate_media template_media_config h3
    generate_parameters_leaves_template [OF generate_media template_media_config h3]
  show ?thesis by (intro conjI) blast+
qed

end
